theory Spec2Isabelle
  imports Complex_Main
begin

section \<open>JavaScript numbers\<close>

text \<open>
  The program computes with JavaScript numbers. They are modelled as the reals extended
  by the three special values the program can produce and test for: \<open>NaN\<close>, \<open>Infinity\<close>
  (\<open>PInf\<close>) and \<open>-Infinity\<close> (\<open>NInf\<close>). The special values follow the rules of the
  language (\<open>Infinity - Infinity\<close>, \<open>0 * Infinity\<close> and \<open>0 / 0\<close> are \<open>NaN\<close>, every
  comparison with \<open>NaN\<close> is false). Finite values are computed exactly: rounding and
  overflow of the 64-bit representation are not modelled, and zero has no sign, so that
  a nonzero number divided by zero takes the sign of the numerator.
\<close>

datatype num = NaN | PInf | NInf | Fin real

fun isNaN :: "num \<Rightarrow> bool" where
  "isNaN NaN = True"
| "isNaN _ = False"


instantiation num :: "{plus, minus, uminus, times, inverse, ord}"
begin

fun plus_num :: "num \<Rightarrow> num \<Rightarrow> num" where
  "plus_num NaN _ = NaN"
| "plus_num _ NaN = NaN"
| "plus_num PInf NInf = NaN"
| "plus_num NInf PInf = NaN"
| "plus_num PInf _ = PInf"
| "plus_num _ PInf = PInf"
| "plus_num NInf _ = NInf"
| "plus_num _ NInf = NInf"
| "plus_num (Fin a) (Fin b) = Fin (a + b)"

fun uminus_num :: "num \<Rightarrow> num" where
  "uminus_num NaN = NaN"
| "uminus_num PInf = NInf"
| "uminus_num NInf = PInf"
| "uminus_num (Fin a) = Fin (- a)"

definition minus_num :: "num \<Rightarrow> num \<Rightarrow> num" where
  "minus_num a b = a + (- b)"

fun times_num :: "num \<Rightarrow> num \<Rightarrow> num" where
  "times_num NaN _ = NaN"
| "times_num _ NaN = NaN"
| "times_num PInf PInf = PInf"
| "times_num PInf NInf = NInf"
| "times_num NInf PInf = NInf"
| "times_num NInf NInf = PInf"
| "times_num PInf (Fin b) = (if b = 0 then NaN else if 0 < b then PInf else NInf)"
| "times_num NInf (Fin b) = (if b = 0 then NaN else if 0 < b then NInf else PInf)"
| "times_num (Fin a) PInf = (if a = 0 then NaN else if 0 < a then PInf else NInf)"
| "times_num (Fin a) NInf = (if a = 0 then NaN else if 0 < a then NInf else PInf)"
| "times_num (Fin a) (Fin b) = Fin (a * b)"

fun divide_num :: "num \<Rightarrow> num \<Rightarrow> num" where
  "divide_num NaN _ = NaN"
| "divide_num _ NaN = NaN"
| "divide_num (Fin a) (Fin b) =
     (if b \<noteq> 0 then Fin (a / b)
      else if a = 0 then NaN else if 0 < a then PInf else NInf)"
| "divide_num (Fin a) _ = Fin 0"
| "divide_num PInf (Fin b) = (if 0 \<le> b then PInf else NInf)"
| "divide_num NInf (Fin b) = (if 0 \<le> b then NInf else PInf)"
| "divide_num _ _ = NaN"

definition inverse_num :: "num \<Rightarrow> num" where
  "inverse_num a = divide (Fin 1) a"

fun less_num :: "num \<Rightarrow> num \<Rightarrow> bool" where
  "less_num NaN _ = False"
| "less_num _ NaN = False"
| "less_num PInf _ = False"
| "less_num _ NInf = False"
| "less_num NInf _ = True"
| "less_num _ PInf = True"
| "less_num (Fin a) (Fin b) = (a < b)"

fun less_eq_num :: "num \<Rightarrow> num \<Rightarrow> bool" where
  "less_eq_num NaN _ = False"
| "less_eq_num _ NaN = False"
| "less_eq_num NInf _ = True"
| "less_eq_num _ PInf = True"
| "less_eq_num PInf _ = False"
| "less_eq_num _ NInf = False"
| "less_eq_num (Fin a) (Fin b) = (a \<le> b)"

instance ..

end

text \<open>\<open>Math.sqrt\<close>: \<open>NaN\<close> on a negative argument.\<close>

fun Math_sqrt :: "num \<Rightarrow> num" where
  "Math_sqrt NaN = NaN"
| "Math_sqrt PInf = PInf"
| "Math_sqrt NInf = NaN"
| "Math_sqrt (Fin a) = (if a < 0 then NaN else Fin (sqrt a))"

section \<open>The class \<open>KalmanFilter\<close>\<close>

text \<open>
  The fields of an instance, under the names of the source with the prefix \<open>kf_\<close>
  (\<open>this.R\<close> is \<open>kf_R\<close>, \<open>this.x\<close> is \<open>kf_x\<close>).
\<close>

record KalmanFilter =
  kf_R :: num
  kf_Q :: num
  kf_A :: num
  kf_C :: num
  kf_B :: num
  kf_cov :: num
  kf_x :: num

text \<open>The constructor; \<open>new KalmanFilter()\<close> is \<open>KalmanFilter_default\<close>.\<close>

definition constructor :: "num \<Rightarrow> num \<Rightarrow> num \<Rightarrow> num \<Rightarrow> num \<Rightarrow> KalmanFilter" where
  "constructor r q a b c =
     \<lparr>kf_R = r, kf_Q = q, kf_A = a, kf_C = c, kf_B = b, kf_cov = NaN, kf_x = NaN\<rparr>"

definition KalmanFilter_default :: KalmanFilter where
  "KalmanFilter_default = constructor (Fin 1) (Fin 1) (Fin 1) (Fin 0) (Fin 1)"

definition predict :: "KalmanFilter \<Rightarrow> num \<Rightarrow> num" where
  "predict k u = kf_A k * kf_x k + kf_B k * u"

definition uncertainty :: "KalmanFilter \<Rightarrow> num" where
  "uncertainty k = kf_A k * kf_cov k * kf_A k + kf_R k"

definition lastMeasurement :: "KalmanFilter \<Rightarrow> num" where
  "lastMeasurement k = kf_x k"

definition setMeasurementNoise :: "num \<Rightarrow> KalmanFilter \<Rightarrow> KalmanFilter" where
  "setMeasurementNoise noise k = k\<lparr>kf_Q := noise\<rparr>"

definition setProcessNoise :: "num \<Rightarrow> KalmanFilter \<Rightarrow> KalmanFilter" where
  "setProcessNoise noise k = k\<lparr>kf_R := noise\<rparr>"

text \<open>
  The method \<open>filter(z, u)\<close>: \<open>kf_filter\<close> is the instance after the call, and
  \<open>filter_result\<close> the value returned, which is the new \<open>this.x\<close>.
\<close>

definition kf_filter :: "num \<Rightarrow> num \<Rightarrow> KalmanFilter \<Rightarrow> KalmanFilter" where
  "kf_filter z u k =
     (if isNaN (kf_x k) then
        k\<lparr>kf_x := (Fin 1 / kf_C k) * z,
          kf_cov := (Fin 1 / kf_C k) * kf_Q k * (Fin 1 / kf_C k)\<rparr>
      else
        let predX = predict k u;
            predCov = uncertainty k;
            K = predCov * kf_C k * (Fin 1 / (kf_C k * predCov * kf_C k + kf_Q k))
        in k\<lparr>kf_x := predX + K * (z - kf_C k * predX),
             kf_cov := predCov - K * kf_C k * predCov\<rparr>)"

definition filter_result :: "num \<Rightarrow> num \<Rightarrow> KalmanFilter \<Rightarrow> num" where
  "filter_result z u k = kf_x (kf_filter z u k)"

text \<open>A filter is uninitialized while its estimate is the sentinel \<open>NaN\<close>.\<close>

definition uninitialized :: "KalmanFilter \<Rightarrow> bool" where
  "uninitialized k = isNaN (kf_x k)"



section \<open>The module state\<close>

text \<open>
  An acceleration object: the fields \<open>x\<close>, \<open>y\<close>, \<open>z\<close> and \<open>mag\<close> of the source, under
  the prefix \<open>acc_\<close>. The objects of the \<open>accel\<close> event and of \<open>Bangle.getAccel()\<close> carry
  further fields, which the program never reads.
\<close>

record acceleration =
  acc_x :: num
  acc_y :: num
  acc_z :: num
  acc_mag :: num

definition zero_acceleration :: acceleration where
  "zero_acceleration = \<lparr>acc_x = Fin 0, acc_y = Fin 0, acc_z = Fin 0, acc_mag = Fin 0\<rparr>"

text \<open>The message \<open>{t: "accel", accel: accel}\<close> and the lines written to \<open>Bluetooth\<close>.\<close>

record message =
  msg_t :: string
  msg_accel :: acceleration

datatype line = Blank | Json message

text \<open>
  The variables of the module: the three filters, \<open>max_acceleration\<close>, \<open>hasData\<close>, and
  the lines printed to \<open>Bluetooth\<close> so far.
\<close>

record state =
  filterX :: KalmanFilter
  filterY :: KalmanFilter
  filterZ :: KalmanFilter
  max_acceleration :: acceleration
  hasData :: bool
  bluetooth :: "line list"

definition initial_state :: state where
  "initial_state =
     \<lparr>filterX = KalmanFilter_default, filterY = KalmanFilter_default,
      filterZ = KalmanFilter_default, max_acceleration = zero_acceleration,
      hasData = False, bluetooth = []\<rparr>"

text \<open>
  \<open>gbSend\<close> prints an empty line and the message. The \<open>catch\<close> branch, taken when
  \<open>Bluetooth.println\<close> throws, only logs to the console; printing is taken to succeed.
\<close>

definition gbSend :: "message \<Rightarrow> state \<Rightarrow> state" where
  "gbSend m s = s\<lparr>bluetooth := bluetooth s @ [Blank, Json m]\<rparr>"

text \<open>
  The function \<open>filter(accel)\<close> of the module, which calls the three filters with the
  default control \<open>u = 0\<close>: the filtered object and the state after the calls.
\<close>

definition filter_accel :: "acceleration \<Rightarrow> state \<Rightarrow> acceleration \<times> state" where
  "filter_accel a s =
     (let fx = kf_filter (acc_x a) (Fin 0) (filterX s);
          fy = kf_filter (acc_y a) (Fin 0) (filterY s);
          fz = kf_filter (acc_z a) (Fin 0) (filterZ s)
      in (\<lparr>acc_x = kf_x fx, acc_y = kf_x fy, acc_z = kf_x fz,
           acc_mag = Math_sqrt (kf_x fx * kf_x fx + kf_x fy * kf_x fy + kf_x fz * kf_x fz)\<rparr>,
          s\<lparr>filterX := fx, filterY := fy, filterZ := fz\<rparr>))"

definition updateAcceleration :: "acceleration \<Rightarrow> state \<Rightarrow> state" where
  "updateAcceleration a s =
     (let s1 = s\<lparr>hasData := True\<rparr>;
          (new_accel, s2) = filter_accel a s1;
          current_max_raw = acc_mag new_accel;
          max_raw = acc_mag (max_acceleration s2)
      in if current_max_raw > max_raw then s2\<lparr>max_acceleration := new_accel\<rparr> else s2)"

text \<open>
  What \<open>updateAcceleration\<close> does with the filtered object once it has it (the first
  line and the comparison): the operation \<open>consider\<close> of the peak sampler in the
  specification.
\<close>

definition consider_sample :: "acceleration \<Rightarrow> state \<Rightarrow> state" where
  "consider_sample v s =
     (let s1 = s\<lparr>hasData := True\<rparr>
      in if acc_mag v > acc_mag (max_acceleration s1)
         then s1\<lparr>max_acceleration := v\<rparr> else s1)"

text \<open>
  \<open>sendAccelerationData\<close>; \<open>getAccel\<close> is the object \<open>Bangle.getAccel()\<close> returns when
  it is called.
\<close>

definition sendAccelerationData :: "acceleration \<Rightarrow> state \<Rightarrow> state" where
  "sendAccelerationData getAccel s =
     (let accel = (if hasData s then max_acceleration s else getAccel);
          update_data = \<lparr>msg_t = ''accel'', msg_accel = accel\<rparr>;
          s1 = gbSend update_data s
      in s1\<lparr>max_acceleration := zero_acceleration, hasData := False\<rparr>)"

text \<open>
  The two callbacks registered when the configuration is enabled: an \<open>accel\<close> event
  with its object, and a tick of the interval timer with the reading \<open>Bangle.getAccel()\<close>
  has at that moment.
\<close>

datatype event = Accel acceleration | Tick acceleration

fun step :: "event \<Rightarrow> state \<Rightarrow> state" where
  "step (Accel a) s = updateAcceleration a s"
| "step (Tick live) s = sendAccelerationData live s"

fun run :: "event list \<Rightarrow> state \<Rightarrow> state" where
  "run [] s = s"
| "run (e # es) s = run es (step e s)"

text \<open>
  The view the specification takes of \<open>sendAccelerationData\<close>: \<open>flushAndReset\<close> hands
  out the peak and the flag and resets both; the report carries the peak when the flag
  is set and the live reading otherwise.
\<close>

definition flushAndReset :: "state \<Rightarrow> (acceleration \<times> bool) \<times> state" where
  "flushAndReset s =
     ((max_acceleration s, hasData s),
      s\<lparr>max_acceleration := zero_acceleration, hasData := False\<rparr>)"

text \<open>The part of the state that belongs to the peak sampler.\<close>

definition peak_state :: "state \<Rightarrow> acceleration \<times> bool" where
  "peak_state s = (max_acceleration s, hasData s)"

text \<open>The messages among the lines printed, in order.\<close>

fun reports :: "line list \<Rightarrow> message list" where
  "reports [] = []"
| "reports (Blank # ls) = reports ls"
| "reports (Json m # ls) = m # reports ls"

fun ticks :: "event list \<Rightarrow> nat" where
  "ticks [] = 0"
| "ticks (Accel a # es) = ticks es"
| "ticks (Tick live # es) = Suc (ticks es)"

text \<open>
  The filtered objects that \<open>updateAcceleration\<close> computes for a list of samples
  delivered in order, from a given state.
\<close>

fun filtered_samples :: "acceleration list \<Rightarrow> state \<Rightarrow> acceleration list" where
  "filtered_samples [] s = []"
| "filtered_samples (a # rest) s =
     fst (filter_accel a s) # filtered_samples rest (updateAcceleration a s)"

text \<open>The three raw samples of the end-to-end scenario.\<close>

definition sample1 :: acceleration where
  "sample1 = \<lparr>acc_x = Fin 1, acc_y = Fin 0, acc_z = Fin 0, acc_mag = Fin 1\<rparr>"

definition sample2 :: acceleration where
  "sample2 = \<lparr>acc_x = Fin 0, acc_y = Fin 5, acc_z = Fin 0, acc_mag = Fin 5\<rparr>"

definition sample3 :: acceleration where
  "sample3 = \<lparr>acc_x = Fin 0, acc_y = Fin 0, acc_z = Fin 2, acc_mag = Fin 2\<rparr>"





text \<open>
  The values of the scenario: the state after the first and after the second sample, and
  the filtered objects of the second and of the third sample.
\<close>

definition after1 :: state where
  "after1 = initial_state\<lparr>filterX := KalmanFilter_default\<lparr>kf_x := Fin 1, kf_cov := Fin 1\<rparr>,
                   filterY := KalmanFilter_default\<lparr>kf_x := Fin 0, kf_cov := Fin 1\<rparr>,
                   filterZ := KalmanFilter_default\<lparr>kf_x := Fin 0, kf_cov := Fin 1\<rparr>,
                   max_acceleration := \<lparr>acc_x = Fin 1, acc_y = Fin 0, acc_z = Fin 0, acc_mag = Fin 1\<rparr>,
                   hasData := True\<rparr>"

definition filtered2 :: acceleration where
  "filtered2 = \<lparr>acc_x = Fin (1 / 3), acc_y = Fin (10 / 3), acc_z = Fin 0,
                 acc_mag = Fin (sqrt 101 / 3)\<rparr>"

definition filtered3 :: acceleration where
  "filtered3 = \<lparr>acc_x = Fin (1 / 8), acc_y = Fin (5 / 4), acc_z = Fin (5 / 4),
                 acc_mag = Fin (sqrt 201 / 8)\<rparr>"

definition after2 :: state where
  "after2 = initial_state\<lparr>filterX := KalmanFilter_default\<lparr>kf_x := Fin (1 / 3), kf_cov := Fin (2 / 3)\<rparr>,
                   filterY := KalmanFilter_default\<lparr>kf_x := Fin (10 / 3), kf_cov := Fin (2 / 3)\<rparr>,
                   filterZ := KalmanFilter_default\<lparr>kf_x := Fin 0, kf_cov := Fin (2 / 3)\<rparr>,
                   max_acceleration := filtered2,
                   hasData := True\<rparr>"

section \<open>Arithmetic of the special values\<close>

text \<open>
  The source multiplies by a reciprocal where the specification divides. On exact
  numbers the two agree, for the special values too.
\<close>

lemma num_times_inverse: "a * (Fin 1 / b) = a / (b::num)"
  by (cases a; cases b) (auto simp: field_simps)

lemma num_inverse_times: "(Fin 1 / c) * z = z / (c::num)"
  by (cases c; cases z) (auto simp: field_simps)

lemma num_cov_init: "(Fin 1 / c) * q * (Fin 1 / c) = q / (c * (c::num))"
  by (cases c; cases q) (auto simp: field_simps zero_less_mult_iff not_less mult_less_0_iff)

lemma num_div_one: "z / Fin 1 = (z::num)"
  by (cases z) auto

section \<open>The first call and the later calls of \<open>filter\<close>\<close>

text \<open>
  C1. On a filter that is still uninitialized (its estimate is the sentinel), the call
  \<open>filter(z, u)\<close> sets the estimate to \<open>z / C\<close> and the covariance to \<open>Q / C\<^sup>2\<close> and
  returns the new estimate; with \<open>C = 1\<close> it returns the measurement \<open>z\<close> itself.
\<close>

theorem first_filter_call:
  assumes "uninitialized k"
  shows "kf_filter z u k = k\<lparr>kf_x := z / kf_C k, kf_cov := kf_Q k / (kf_C k * kf_C k)\<rparr>
       \<and> filter_result z u k = z / kf_C k
       \<and> (kf_C k = Fin 1 \<longrightarrow> filter_result z u k = z)"
proof -
  have nan: "isNaN (kf_x k)"
    using assms by (simp add: uninitialized_def)
  have step: "kf_filter z u k =
      k\<lparr>kf_x := z / kf_C k, kf_cov := kf_Q k / (kf_C k * kf_C k)\<rparr>"
    unfolding kf_filter_def using nan
    by (simp only: if_True num_inverse_times [of "kf_C k" z] num_cov_init [of "kf_C k" "kf_Q k"])
  have res: "filter_result z u k = z / kf_C k"
    by (simp add: filter_result_def step)
  have "kf_C k = Fin 1 \<longrightarrow> filter_result z u k = z"
    by (simp add: res num_div_one)
  with step res show ?thesis by simp
qed

theorem first_filter_call_witness:
  "uninitialized KalmanFilter_default
   \<and> kf_filter (Fin 7) (Fin 0) KalmanFilter_default
       = KalmanFilter_default\<lparr>kf_x := Fin 7, kf_cov := Fin 1\<rparr>
   \<and> filter_result (Fin 7) (Fin 0) KalmanFilter_default = Fin 7"
proof -
  have u: "uninitialized KalmanFilter_default"
    by (simp add: uninitialized_def KalmanFilter_default_def constructor_def)
  show ?thesis
    using u first_filter_call [OF u, of "Fin 7" "Fin 0"]
    by (simp add: KalmanFilter_default_def constructor_def)
qed

text \<open>
  C2. On an initialized filter, \<open>filter(z, u)\<close> predicts the estimate \<open>A*x + B*u\<close> and
  the covariance \<open>A*cov*A + R\<close>, takes the gain \<open>K = predCov*C / (C*predCov*C + Q)\<close>,
  sets the estimate to \<open>predEstimate + K*(z - C*predEstimate)\<close> and the covariance to
  \<open>predCov - K*C*predCov\<close>, and returns the new estimate.
\<close>

theorem later_filter_call:
  assumes "\<not> uninitialized k"
  shows "kf_filter z u k =
          (let predEstimate = kf_A k * kf_x k + kf_B k * u;
               predCov = kf_A k * kf_cov k * kf_A k + kf_R k;
               K = predCov * kf_C k / (kf_C k * predCov * kf_C k + kf_Q k)
           in k\<lparr>kf_x := predEstimate + K * (z - kf_C k * predEstimate),
                kf_cov := predCov - K * kf_C k * predCov\<rparr>)
       \<and> filter_result z u k = kf_x (kf_filter z u k)
       \<and> predict k u = kf_A k * kf_x k + kf_B k * u
       \<and> uncertainty k = kf_A k * kf_cov k * kf_A k + kf_R k"
  using assms
  by (simp add: kf_filter_def filter_result_def uninitialized_def predict_def
      uncertainty_def Let_def num_times_inverse)

theorem later_filter_call_witness:
  "\<not> uninitialized (KalmanFilter_default\<lparr>kf_x := Fin 1, kf_cov := Fin 1\<rparr>)
   \<and> kf_filter (Fin 4) (Fin 0) (KalmanFilter_default\<lparr>kf_x := Fin 1, kf_cov := Fin 1\<rparr>)
       = KalmanFilter_default\<lparr>kf_x := Fin 3, kf_cov := Fin (2 / 3)\<rparr>"
proof -
  have i: "\<not> uninitialized (KalmanFilter_default\<lparr>kf_x := Fin 1, kf_cov := Fin 1\<rparr>)"
    by (simp add: uninitialized_def)
  show ?thesis
    using i later_filter_call [OF i, of "Fin 4" "Fin 0"]
    by (simp add: KalmanFilter_default_def constructor_def Let_def minus_num_def)
qed

section \<open>The peak sampler and the scheduler\<close>

subsection \<open>Facts about the callbacks\<close>

lemma num_less_irrefl: "\<not> (a::num) < a"
  by (cases a) auto

lemma updateAcceleration_consider:
  "updateAcceleration a s = (let (v, s') = filter_accel a s in consider_sample v s')"
  by (simp add: updateAcceleration_def consider_sample_def filter_accel_def Let_def)

lemma hasData_updateAcceleration: "hasData (updateAcceleration a s)"
  by (simp add: updateAcceleration_def filter_accel_def Let_def)

lemma reset_invariant_step:
  "(\<not> hasData s \<longrightarrow> max_acceleration s = zero_acceleration)
   \<Longrightarrow> (\<not> hasData (step e s) \<longrightarrow> max_acceleration (step e s) = zero_acceleration)"
  by (cases e) (simp_all add: hasData_updateAcceleration sendAccelerationData_def gbSend_def Let_def)

lemma reset_invariant_run:
  "(\<not> hasData s \<longrightarrow> max_acceleration s = zero_acceleration)
   \<Longrightarrow> (\<not> hasData (run es s) \<longrightarrow> max_acceleration (run es s) = zero_acceleration)"
proof (induction es arbitrary: s)
  case Nil
  then show ?case by simp
next
  case (Cons e es)
  from reset_invariant_step [OF Cons.prems, of e] Cons.IH [of "step e s"]
  show ?case by simp
qed

lemma bluetooth_updateAcceleration: "bluetooth (updateAcceleration a s) = bluetooth s"
  by (simp add: updateAcceleration_def filter_accel_def Let_def)

lemma updateAcceleration_bluetooth_update:
  "updateAcceleration a (s\<lparr>bluetooth := out\<rparr>) = (updateAcceleration a s)\<lparr>bluetooth := out\<rparr>"
  by (simp add: updateAcceleration_def filter_accel_def Let_def)

lemma run_Accel_bluetooth_update:
  "run (map Accel as) (s\<lparr>bluetooth := out\<rparr>) = (run (map Accel as) s)\<lparr>bluetooth := out\<rparr>"
  by (induction as arbitrary: s) (simp_all add: updateAcceleration_bluetooth_update)

lemma sendAccelerationData_reset:
  "sendAccelerationData live s =
     s\<lparr>max_acceleration := zero_acceleration, hasData := False,
       bluetooth := bluetooth (sendAccelerationData live s)\<rparr>"
  by (simp add: sendAccelerationData_def gbSend_def Let_def)

lemma hasData_run_Accel:
  "hasData (run (map Accel as) s) = (as \<noteq> [] \<or> hasData s)"
proof (induction as arbitrary: s)
  case Nil
  show ?case by simp
next
  case (Cons a as)
  show ?case by (simp add: Cons.IH hasData_updateAcceleration)
qed

lemma bluetooth_run_Accel: "bluetooth (run (map Accel as) s) = bluetooth s"
  by (induction as arbitrary: s) (simp_all add: bluetooth_updateAcceleration)

lemma reports_append: "reports (ls @ ms) = reports ls @ reports ms"
  by (induction ls rule: reports.induct) simp_all

lemma bluetooth_sendAccelerationData:
  "bluetooth (sendAccelerationData live s) =
     bluetooth s @ [Blank, Json \<lparr>msg_t = ''accel'',
        msg_accel = (if hasData s then max_acceleration s else live)\<rparr>]"
  by (simp add: sendAccelerationData_def gbSend_def Let_def)

lemma length_reports_step:
  "length (reports (bluetooth (step e s))) =
     length (reports (bluetooth s)) + ticks [e]"
  by (cases e) (simp_all add: bluetooth_updateAcceleration bluetooth_sendAccelerationData
      reports_append)

lemma length_reports_run:
  "length (reports (bluetooth (run es s))) = length (reports (bluetooth s)) + ticks es"
proof (induction es arbitrary: s)
  case Nil
  show ?case by simp
next
  case (Cons e es)
  have "ticks (e # es) = ticks [e] + ticks es" by (cases e) simp_all
  then show ?case by (simp add: Cons.IH length_reports_step)
qed

lemma max_updateAcceleration:
  "max_acceleration (updateAcceleration a s) =
     (if acc_mag (fst (filter_accel a s)) > acc_mag (max_acceleration s)
      then fst (filter_accel a s) else max_acceleration s)"
  by (simp add: updateAcceleration_def filter_accel_def Let_def)

lemma max_stays_zero:
  "max_acceleration s = zero_acceleration \<Longrightarrow>
   \<forall>v \<in> set (filtered_samples as s). \<not> acc_mag v > Fin 0 \<Longrightarrow>
   max_acceleration (run (map Accel as) s) = zero_acceleration"
proof (induction as arbitrary: s)
  case Nil
  then show ?case by simp
next
  case (Cons a as)
  have "max_acceleration (updateAcceleration a s) = zero_acceleration"
    using Cons.prems by (simp add: max_updateAcceleration zero_acceleration_def)
  then show ?case using Cons.IH [of "updateAcceleration a s"] Cons.prems by simp
qed

lemma filtered_zero_then_nan:
  "filtered_samples
     [zero_acceleration, \<lparr>acc_x = NaN, acc_y = Fin 0, acc_z = Fin 0, acc_mag = NaN\<rparr>]
     initial_state
   = [zero_acceleration, \<lparr>acc_x = NaN, acc_y = Fin 0, acc_z = Fin 0, acc_mag = NaN\<rparr>]"
  by (simp add: filter_accel_def updateAcceleration_def kf_filter_def predict_def
      uncertainty_def initial_state_def KalmanFilter_default_def constructor_def
      zero_acceleration_def Let_def minus_num_def)

subsection \<open>The peak sampler\<close>

text \<open>
  C5. \<open>consider\<close> replaces the stored peak exactly when the magnitude of the filtered
  object is strictly greater than the magnitude of the stored peak, which is 0 in every
  reachable state where \<open>hasData\<close> is false; on a tie the stored peak stays; and
  submitting the same filtered object twice leaves the state that submitting it once
  leaves.
\<close>

theorem consider_keeps_strict_maximum:
  "max_acceleration (consider_sample v s) =
     (if acc_mag v > acc_mag (max_acceleration s) then v else max_acceleration s)
   \<and> (acc_mag v = acc_mag (max_acceleration s) \<longrightarrow>
        max_acceleration (consider_sample v s) = max_acceleration s)
   \<and> (\<not> hasData (run es initial_state) \<longrightarrow>
        acc_mag (max_acceleration (run es initial_state)) = Fin 0)
   \<and> consider_sample v (consider_sample v s) = consider_sample v s
   \<and> updateAcceleration a s = (let (w, s') = filter_accel a s in consider_sample w s')"
proof -
  have init: "\<not> hasData initial_state \<longrightarrow> max_acceleration initial_state = zero_acceleration"
    by (simp add: initial_state_def)
  have zero: "\<not> hasData (run es initial_state) \<longrightarrow>
        acc_mag (max_acceleration (run es initial_state)) = Fin 0"
    using reset_invariant_run [OF init, of es] by (simp add: zero_acceleration_def)
  have idem: "consider_sample v (consider_sample v s) = consider_sample v s"
    by (simp add: consider_sample_def Let_def num_less_irrefl)
  have repl: "max_acceleration (consider_sample v s) =
     (if acc_mag v > acc_mag (max_acceleration s) then v else max_acceleration s)"
    by (simp add: consider_sample_def Let_def)
  have tie: "acc_mag v = acc_mag (max_acceleration s) \<longrightarrow>
        max_acceleration (consider_sample v s) = max_acceleration s"
    by (simp add: consider_sample_def Let_def num_less_irrefl)
  from repl tie zero idem updateAcceleration_consider [of a s] show ?thesis by simp
qed

theorem consider_keeps_strict_maximum_witness:
  "acc_mag \<lparr>acc_x = Fin 3, acc_y = Fin 0, acc_z = Fin 0, acc_mag = Fin 3\<rparr>
     = acc_mag (max_acceleration (initial_state
         \<lparr>max_acceleration := \<lparr>acc_x = Fin 0, acc_y = Fin 3, acc_z = Fin 0, acc_mag = Fin 3\<rparr>\<rparr>))
   \<and> max_acceleration (consider_sample
        \<lparr>acc_x = Fin 3, acc_y = Fin 0, acc_z = Fin 0, acc_mag = Fin 3\<rparr>
        (initial_state
         \<lparr>max_acceleration := \<lparr>acc_x = Fin 0, acc_y = Fin 3, acc_z = Fin 0, acc_mag = Fin 3\<rparr>\<rparr>))
     = \<lparr>acc_x = Fin 0, acc_y = Fin 3, acc_z = Fin 0, acc_mag = Fin 3\<rparr>
   \<and> \<not> hasData (run [] initial_state)
   \<and> acc_mag (max_acceleration (run [] initial_state)) = Fin 0"
  using consider_keeps_strict_maximum
    [of "\<lparr>acc_x = Fin 3, acc_y = Fin 0, acc_z = Fin 0, acc_mag = Fin 3\<rparr>"
        "initial_state
         \<lparr>max_acceleration := \<lparr>acc_x = Fin 0, acc_y = Fin 3, acc_z = Fin 0, acc_mag = Fin 3\<rparr>\<rparr>"
        "[]"]
  by (simp add: initial_state_def)

text \<open>
  C6. \<open>flushAndReset\<close> hands out the current peak and the flag and resets the peak to
  the zero object and the flag to false. With no sample since the construction or the
  last reset it hands out the zero object and false, and the peak state of a window does
  not depend on the peak state before the flush that opened it.
\<close>

theorem flush_resets_peak_state:
  "sendAccelerationData live s =
     (let ((peak, hadData), s') = flushAndReset s
      in gbSend \<lparr>msg_t = ''accel'', msg_accel = (if hadData then peak else live)\<rparr> s')
   \<and> fst (flushAndReset s) = (max_acceleration s, hasData s)
   \<and> peak_state (snd (flushAndReset s)) = (zero_acceleration, False)
   \<and> peak_state (sendAccelerationData live s) = (zero_acceleration, False)
   \<and> fst (flushAndReset initial_state) = (zero_acceleration, False)
   \<and> fst (flushAndReset (sendAccelerationData live s)) = (zero_acceleration, False)
   \<and> peak_state (run (map Accel as)
        (sendAccelerationData live (s\<lparr>max_acceleration := p, hasData := h\<rparr>)))
     = peak_state (run (map Accel as) (sendAccelerationData live' s))"
proof -
  have eq: "sendAccelerationData live s =
     (let ((peak, hadData), s') = flushAndReset s
      in gbSend \<lparr>msg_t = ''accel'', msg_accel = (if hadData then peak else live)\<rparr> s')"
    by (simp add: sendAccelerationData_def flushAndReset_def gbSend_def Let_def)
  have ret: "fst (flushAndReset s) = (max_acceleration s, hasData s)"
    by (simp add: flushAndReset_def)
  have reset: "peak_state (snd (flushAndReset s)) = (zero_acceleration, False)"
    by (simp add: flushAndReset_def peak_state_def)
  have after: "peak_state (sendAccelerationData live s) = (zero_acceleration, False)"
    by (simp add: sendAccelerationData_def gbSend_def peak_state_def Let_def)
  have init: "fst (flushAndReset initial_state) = (zero_acceleration, False)"
    by (simp add: flushAndReset_def initial_state_def)
  have again: "fst (flushAndReset (sendAccelerationData live s)) = (zero_acceleration, False)"
    by (simp add: flushAndReset_def sendAccelerationData_def gbSend_def Let_def)
  have "sendAccelerationData live (s\<lparr>max_acceleration := p, hasData := h\<rparr>) =
        (sendAccelerationData live' s)\<lparr>bluetooth :=
           bluetooth (sendAccelerationData live (s\<lparr>max_acceleration := p, hasData := h\<rparr>))\<rparr>"
    by (simp add: sendAccelerationData_def gbSend_def Let_def)
  then have "run (map Accel as) (sendAccelerationData live (s\<lparr>max_acceleration := p, hasData := h\<rparr>))
      = (run (map Accel as) (sendAccelerationData live' s))\<lparr>bluetooth :=
           bluetooth (sendAccelerationData live (s\<lparr>max_acceleration := p, hasData := h\<rparr>))\<rparr>"
    using run_Accel_bluetooth_update by metis
  then have indep: "peak_state (run (map Accel as)
        (sendAccelerationData live (s\<lparr>max_acceleration := p, hasData := h\<rparr>)))
     = peak_state (run (map Accel as) (sendAccelerationData live' s))"
    by (simp add: peak_state_def)
  from eq ret reset after init again indep show ?thesis by simp
qed

subsection \<open>The scheduler\<close>

text \<open>
  C7. A tick prints one message, of type \<open>accel\<close>: with the live reading when
  \<open>hasData\<close> is false, which is the case exactly when no sample came in the window, and
  with the accumulated peak when it is true. A run prints as many messages as it has
  ticks.
\<close>

theorem tick_emits_one_report:
  "bluetooth (sendAccelerationData live s) =
     bluetooth s @ [Blank, Json \<lparr>msg_t = ''accel'',
        msg_accel = (if hasData s then max_acceleration s else live)\<rparr>]
   \<and> reports (bluetooth (sendAccelerationData live s)) =
     reports (bluetooth s) @ [\<lparr>msg_t = ''accel'',
        msg_accel = (if hasData s then max_acceleration s else live)\<rparr>]
   \<and> length (reports (bluetooth (run es s))) = length (reports (bluetooth s)) + ticks es
   \<and> hasData (run (map Accel as) (sendAccelerationData live0 s)) = (as \<noteq> [])
   \<and> hasData (run (map Accel as) initial_state) = (as \<noteq> [])"
proof -
  have h1: "hasData (run (map Accel as) (sendAccelerationData live0 s)) = (as \<noteq> [])"
    by (simp add: hasData_run_Accel sendAccelerationData_def gbSend_def Let_def)
  have h2: "hasData (run (map Accel as) initial_state) = (as \<noteq> [])"
    by (simp add: hasData_run_Accel initial_state_def)
  from h1 h2 show ?thesis
    by (simp add: bluetooth_sendAccelerationData reports_append length_reports_run)
qed

text \<open>
  C10. \<open>updateAcceleration\<close> sets \<open>hasData\<close> whether or not the sample becomes the
  peak. So after a window that had samples, none with a filtered magnitude above 0, the
  tick reports the zero object and not the live reading.
\<close>

theorem sample_without_peak_suppresses_live_read:
  "hasData (updateAcceleration a s)
   \<and> (max_acceleration s = zero_acceleration \<and> as \<noteq> []
        \<and> (\<forall>v \<in> set (filtered_samples as s). \<not> acc_mag v > Fin 0)
      \<longrightarrow> hasData (run (map Accel as) s)
        \<and> max_acceleration (run (map Accel as) s) = zero_acceleration
        \<and> reports (bluetooth (sendAccelerationData live (run (map Accel as) s)))
          = reports (bluetooth s) @ [\<lparr>msg_t = ''accel'', msg_accel = zero_acceleration\<rparr>])"
proof -
  {
    assume z: "max_acceleration s = zero_acceleration" and ne: "as \<noteq> []"
      and m: "\<forall>v \<in> set (filtered_samples as s). \<not> acc_mag v > Fin 0"
    have h: "hasData (run (map Accel as) s)"
      using ne by (simp add: hasData_run_Accel)
    have p: "max_acceleration (run (map Accel as) s) = zero_acceleration"
      using max_stays_zero [OF z m] .
    have "reports (bluetooth (sendAccelerationData live (run (map Accel as) s)))
          = reports (bluetooth s) @ [\<lparr>msg_t = ''accel'', msg_accel = zero_acceleration\<rparr>]"
      by (simp add: bluetooth_sendAccelerationData reports_append h p bluetooth_run_Accel)
    with h p have "hasData (run (map Accel as) s)
        \<and> max_acceleration (run (map Accel as) s) = zero_acceleration
        \<and> reports (bluetooth (sendAccelerationData live (run (map Accel as) s)))
          = reports (bluetooth s) @ [\<lparr>msg_t = ''accel'', msg_accel = zero_acceleration\<rparr>]"
      by simp
  }
  then show ?thesis using hasData_updateAcceleration [of a s] by blast
qed

theorem sample_without_peak_suppresses_live_read_witness:
  "max_acceleration initial_state = zero_acceleration
   \<and> filtered_samples
          [zero_acceleration, \<lparr>acc_x = NaN, acc_y = Fin 0, acc_z = Fin 0, acc_mag = NaN\<rparr>]
          initial_state
       = [zero_acceleration, \<lparr>acc_x = NaN, acc_y = Fin 0, acc_z = Fin 0, acc_mag = NaN\<rparr>]
   \<and> \<not> acc_mag zero_acceleration > Fin 0 \<and> \<not> NaN > Fin 0
   \<and> reports (bluetooth (sendAccelerationData
        \<lparr>acc_x = Fin 0, acc_y = Fin 0, acc_z = Fin 1, acc_mag = Fin 1\<rparr>
        (run (map Accel
          [zero_acceleration, \<lparr>acc_x = NaN, acc_y = Fin 0, acc_z = Fin 0, acc_mag = NaN\<rparr>])
          initial_state)))
     = [\<lparr>msg_t = ''accel'', msg_accel = zero_acceleration\<rparr>]"
proof -
  have z: "max_acceleration initial_state = zero_acceleration"
    by (simp add: initial_state_def)
  have m: "\<forall>v \<in> set (filtered_samples
          [zero_acceleration, \<lparr>acc_x = NaN, acc_y = Fin 0, acc_z = Fin 0, acc_mag = NaN\<rparr>]
          initial_state). \<not> acc_mag v > Fin 0"
    unfolding filtered_zero_then_nan by (simp add: zero_acceleration_def)
  have b: "bluetooth initial_state = []"
    by (simp add: initial_state_def)
  show ?thesis
    using z m b filtered_zero_then_nan sample_without_peak_suppresses_live_read
      [of _ initial_state
          "[zero_acceleration, \<lparr>acc_x = NaN, acc_y = Fin 0, acc_z = Fin 0, acc_mag = NaN\<rparr>]"
          "\<lparr>acc_x = Fin 0, acc_y = Fin 0, acc_z = Fin 1, acc_mag = Fin 1\<rparr>"]
    by (simp add: zero_acceleration_def)
qed

section \<open>Repeated calls on finite numbers\<close>





















subsection \<open>The uncertainty over repeated calls\<close>


text \<open>A negative \<open>R\<close> makes the uncertainty rise, from -2 to -1.\<close>

lemma negative_process_noise_increases:
  "uncertainty ((kf_filter (Fin 1) (Fin 0) ^^ 1)
        (constructor (Fin (- 3)) (Fin 1) (Fin 1) (Fin 0) (Fin 1))) = Fin (- 2)
   \<and> uncertainty ((kf_filter (Fin 1) (Fin 0) ^^ 2)
        (constructor (Fin (- 3)) (Fin 1) (Fin 1) (Fin 0) (Fin 1))) = Fin (- 1)"
  by (simp add: numeral_2_eq_2 kf_filter_def uncertainty_def predict_def constructor_def
      Let_def minus_num_def)



subsection \<open>A constant measurement\<close>




subsection \<open>Staying initialized\<close>




section \<open>The end-to-end scenario\<close>

lemma default_first:
  "kf_filter (Fin z) (Fin 0) KalmanFilter_default =
     KalmanFilter_default\<lparr>kf_x := Fin z, kf_cov := Fin 1\<rparr>"
  by (simp add: kf_filter_def KalmanFilter_default_def constructor_def)

lemma default_later:
  assumes "0 \<le> p"
  shows "kf_filter (Fin z) (Fin 0) (KalmanFilter_default\<lparr>kf_x := Fin e, kf_cov := Fin p\<rparr>) =
     KalmanFilter_default\<lparr>kf_x := Fin (e + (p + 1) / (p + 2) * (z - e)),
        kf_cov := Fin ((p + 1) / (p + 2))\<rparr>"
proof -
  have "p + 2 \<noteq> 0" using assms by simp
  then show ?thesis
    by (simp add: kf_filter_def KalmanFilter_default_def constructor_def predict_def
      uncertainty_def Let_def minus_num_def field_simps)
qed

lemma filter_accel_fresh:
  "filter_accel \<lparr>acc_x = Fin a, acc_y = Fin b, acc_z = Fin c, acc_mag = m\<rparr> initial_state =
    (\<lparr>acc_x = Fin a, acc_y = Fin b, acc_z = Fin c, acc_mag = Fin (sqrt (a * a + b * b + c * c))\<rparr>,
     initial_state\<lparr>filterX := KalmanFilter_default\<lparr>kf_x := Fin a, kf_cov := Fin 1\<rparr>,
                   filterY := KalmanFilter_default\<lparr>kf_x := Fin b, kf_cov := Fin 1\<rparr>,
                   filterZ := KalmanFilter_default\<lparr>kf_x := Fin c, kf_cov := Fin 1\<rparr>\<rparr>)"
  by (simp add: filter_accel_def initial_state_def default_first Let_def not_less)

lemma filter_accel_later:
  assumes "filterX s = KalmanFilter_default\<lparr>kf_x := Fin ex, kf_cov := Fin p\<rparr>"
    and "filterY s = KalmanFilter_default\<lparr>kf_x := Fin ey, kf_cov := Fin p\<rparr>"
    and "filterZ s = KalmanFilter_default\<lparr>kf_x := Fin ez, kf_cov := Fin p\<rparr>"
    and "0 \<le> p"
    and "x' = ex + (p + 1) / (p + 2) * (a - ex)"
    and "y' = ey + (p + 1) / (p + 2) * (b - ey)"
    and "z' = ez + (p + 1) / (p + 2) * (c - ez)"
  shows "filter_accel \<lparr>acc_x = Fin a, acc_y = Fin b, acc_z = Fin c, acc_mag = m\<rparr> s =
    (\<lparr>acc_x = Fin x', acc_y = Fin y', acc_z = Fin z',
      acc_mag = Fin (sqrt (x' * x' + y' * y' + z' * z'))\<rparr>,
     s\<lparr>filterX := KalmanFilter_default\<lparr>kf_x := Fin x', kf_cov := Fin ((p + 1) / (p + 2))\<rparr>,
       filterY := KalmanFilter_default\<lparr>kf_x := Fin y', kf_cov := Fin ((p + 1) / (p + 2))\<rparr>,
       filterZ := KalmanFilter_default\<lparr>kf_x := Fin z', kf_cov := Fin ((p + 1) / (p + 2))\<rparr>\<rparr>)"
proof -
  have fx: "kf_filter (Fin a) (Fin 0) (filterX s) =
      KalmanFilter_default\<lparr>kf_x := Fin x', kf_cov := Fin ((p + 1) / (p + 2))\<rparr>"
    by (simp only: assms(1) assms(5) default_later [OF assms(4)])
  have fy: "kf_filter (Fin b) (Fin 0) (filterY s) =
      KalmanFilter_default\<lparr>kf_x := Fin y', kf_cov := Fin ((p + 1) / (p + 2))\<rparr>"
    by (simp only: assms(2) assms(6) default_later [OF assms(4)])
  have fz: "kf_filter (Fin c) (Fin 0) (filterZ s) =
      KalmanFilter_default\<lparr>kf_x := Fin z', kf_cov := Fin ((p + 1) / (p + 2))\<rparr>"
    by (simp only: assms(3) assms(7) default_later [OF assms(4)])
  show ?thesis
    by (simp add: filter_accel_def Let_def fx fy fz not_less)
qed

lemma scenario_step1: "updateAcceleration sample1 initial_state = after1"
proof -
  have "filter_accel sample1 initial_state =
    (\<lparr>acc_x = Fin 1, acc_y = Fin 0, acc_z = Fin 0, acc_mag = Fin 1\<rparr>,
     initial_state\<lparr>filterX := KalmanFilter_default\<lparr>kf_x := Fin 1, kf_cov := Fin 1\<rparr>,
                   filterY := KalmanFilter_default\<lparr>kf_x := Fin 0, kf_cov := Fin 1\<rparr>,
                   filterZ := KalmanFilter_default\<lparr>kf_x := Fin 0, kf_cov := Fin 1\<rparr>\<rparr>)"
    unfolding sample1_def filter_accel_fresh by simp
  then show ?thesis
    by (simp add: updateAcceleration_consider consider_sample_def Let_def after1_def
        initial_state_def zero_acceleration_def)
qed

lemma scenario_filtered2:
  "filter_accel sample2 after1 =
     (filtered2,
      after1\<lparr>filterX := KalmanFilter_default\<lparr>kf_x := Fin (1 / 3), kf_cov := Fin (2 / 3)\<rparr>,
             filterY := KalmanFilter_default\<lparr>kf_x := Fin (10 / 3), kf_cov := Fin (2 / 3)\<rparr>,
             filterZ := KalmanFilter_default\<lparr>kf_x := Fin 0, kf_cov := Fin (2 / 3)\<rparr>\<rparr>)"
proof -
  have m: "sqrt (1 / 3 * (1 / 3) + 10 / 3 * (10 / 3) + 0 * 0) = sqrt 101 / 3"
    by (simp add: real_sqrt_divide)
  have "filter_accel sample2 after1 =
    (\<lparr>acc_x = Fin (1 / 3), acc_y = Fin (10 / 3), acc_z = Fin 0,
      acc_mag = Fin (sqrt (1 / 3 * (1 / 3) + 10 / 3 * (10 / 3) + 0 * 0))\<rparr>,
     after1\<lparr>filterX := KalmanFilter_default\<lparr>kf_x := Fin (1 / 3), kf_cov := Fin ((1 + 1) / (1 + 2))\<rparr>,
       filterY := KalmanFilter_default\<lparr>kf_x := Fin (10 / 3), kf_cov := Fin ((1 + 1) / (1 + 2))\<rparr>,
       filterZ := KalmanFilter_default\<lparr>kf_x := Fin 0, kf_cov := Fin ((1 + 1) / (1 + 2))\<rparr>\<rparr>)"
    unfolding sample2_def
    by (rule filter_accel_later [where ex = 1 and ey = 0 and ez = 0])
       (simp_all add: after1_def)
  then show ?thesis
    unfolding m filtered2_def by simp
qed

lemma scenario_step2: "updateAcceleration sample2 after1 = after2"
proof -
  have "(1::real) < sqrt 101 / 3"
    using real_less_rsqrt [of 3 101] by simp
  then show ?thesis
    unfolding updateAcceleration_consider scenario_filtered2
    by (simp add: consider_sample_def Let_def after1_def after2_def filtered2_def)
qed

lemma scenario_filtered3:
  "filter_accel sample3 after2 =
     (filtered3,
      after2\<lparr>filterX := KalmanFilter_default\<lparr>kf_x := Fin (1 / 8), kf_cov := Fin (5 / 8)\<rparr>,
             filterY := KalmanFilter_default\<lparr>kf_x := Fin (5 / 4), kf_cov := Fin (5 / 8)\<rparr>,
             filterZ := KalmanFilter_default\<lparr>kf_x := Fin (5 / 4), kf_cov := Fin (5 / 8)\<rparr>\<rparr>)"
proof -
  have m: "sqrt (1 / 8 * (1 / 8) + 5 / 4 * (5 / 4) + 5 / 4 * (5 / 4)) = sqrt 201 / 8"
    by (simp add: real_sqrt_divide)
  have "filter_accel sample3 after2 =
    (\<lparr>acc_x = Fin (1 / 8), acc_y = Fin (5 / 4), acc_z = Fin (5 / 4),
      acc_mag = Fin (sqrt (1 / 8 * (1 / 8) + 5 / 4 * (5 / 4) + 5 / 4 * (5 / 4)))\<rparr>,
     after2\<lparr>filterX := KalmanFilter_default\<lparr>kf_x := Fin (1 / 8), kf_cov := Fin ((2 / 3 + 1) / (2 / 3 + 2))\<rparr>,
       filterY := KalmanFilter_default\<lparr>kf_x := Fin (5 / 4), kf_cov := Fin ((2 / 3 + 1) / (2 / 3 + 2))\<rparr>,
       filterZ := KalmanFilter_default\<lparr>kf_x := Fin (5 / 4), kf_cov := Fin ((2 / 3 + 1) / (2 / 3 + 2))\<rparr>\<rparr>)"
    unfolding sample3_def
    by (rule filter_accel_later [where ex = "1 / 3" and ey = "10 / 3" and ez = 0])
       (simp_all add: after2_def)
  then show ?thesis
    unfolding m filtered3_def by simp
qed

lemma magnitude_3_below_2: "sqrt 201 / 8 < sqrt 101 / (3::real)"
proof -
  have "sqrt 201 < 15"
    using real_sqrt_less_iff [of 201 225] by simp
  moreover have "10 < sqrt 101"
    using real_less_rsqrt [of 10 101] by simp
  ultimately show ?thesis by simp
qed

lemma scenario_step3:
  "max_acceleration (updateAcceleration sample3 after2) = filtered2"
proof -
  have "\<not> sqrt 101 / 3 < sqrt 201 / (8::real)"
    using magnitude_3_below_2 by simp
  then show ?thesis
    unfolding updateAcceleration_consider scenario_filtered3
    by (simp add: consider_sample_def Let_def after2_def filtered2_def filtered3_def)
qed

text \<open>
  C9. After the raw samples (1,0,0), (0,5,0) and (0,0,2), fed in this order to the
  default filters and the peak sampler from the initial state, the stored peak is the
  filtered object of the second sample, whose magnitude is above the magnitudes of the
  filtered first and third samples.
\<close>

theorem scenario_peak_is_second_sample:
  "max_acceleration (run [Accel sample1, Accel sample2, Accel sample3] initial_state)
     = fst (filter_accel sample2 (run [Accel sample1] initial_state))
   \<and> fst (filter_accel sample1 initial_state)
     = \<lparr>acc_x = Fin 1, acc_y = Fin 0, acc_z = Fin 0, acc_mag = Fin 1\<rparr>
   \<and> fst (filter_accel sample2 (run [Accel sample1] initial_state))
     = \<lparr>acc_x = Fin (1 / 3), acc_y = Fin (10 / 3), acc_z = Fin 0, acc_mag = Fin (sqrt 101 / 3)\<rparr>
   \<and> fst (filter_accel sample3 (run [Accel sample1, Accel sample2] initial_state))
     = \<lparr>acc_x = Fin (1 / 8), acc_y = Fin (5 / 4), acc_z = Fin (5 / 4), acc_mag = Fin (sqrt 201 / 8)\<rparr>
   \<and> Fin 1 < Fin (sqrt 101 / 3) \<and> Fin (sqrt 201 / 8) < Fin (sqrt 101 / 3)"
proof -
  have r1: "run [Accel sample1] initial_state = after1"
    by (simp add: scenario_step1)
  have r2: "run [Accel sample1, Accel sample2] initial_state = after2"
    by (simp add: scenario_step1 scenario_step2)
  have r3: "max_acceleration (run [Accel sample1, Accel sample2, Accel sample3] initial_state)
      = filtered2"
    by (simp add: scenario_step1 scenario_step2 scenario_step3)
  have f1: "fst (filter_accel sample1 initial_state)
     = \<lparr>acc_x = Fin 1, acc_y = Fin 0, acc_z = Fin 0, acc_mag = Fin 1\<rparr>"
    unfolding sample1_def filter_accel_fresh by simp
  have c1: "(1::real) < sqrt 101 / 3"
    using real_less_rsqrt [of 3 101] by simp
  show ?thesis
    unfolding r1 r2 r3 scenario_filtered2 scenario_filtered3 f1
    using c1 magnitude_3_below_2
    by (simp add: filtered2_def filtered3_def)
qed

end
